theory Spec2Isabelle
  imports Main "HOL-Library.Word"
begin

section \<open>JavaScript strings and arrays\<close>

text \<open>
  A JavaScript string is a sequence of UTF-16 code units.  The server works on the text
  that \<^verbatim>\<open>data.toString()\<close> decodes from the received buffer; the model starts from that
  decoded text.  A value that may be \<^verbatim>\<open>undefined\<close> (an array element read past the end)
  is an option, \<open>None\<close> standing for \<^verbatim>\<open>undefined\<close>.
\<close>

type_synonym jschar = "16 word"
type_synonym jsstring = "jschar list"
type_synonym jsval = "jsstring option"

definition js :: "string \<Rightarrow> jsstring" where
  "js s = map of_char s"

text \<open>The message terminator \<^verbatim>\<open>'\0'\<close> and the field separator \<^verbatim>\<open>'|'\<close>.\<close>

definition NUL :: jschar where
  "NUL = 0x00"

definition BAR :: jschar where
  "BAR = 0x7C"

text \<open>
  The code units that \<^verbatim>\<open>String.prototype.trim\<close> strips: ECMAScript's WhiteSpace
  (TAB, VT, FF, ZWNBSP and the Unicode space separators) and LineTerminator.
\<close>

definition isWhiteSpace :: "jschar \<Rightarrow> bool" where
  "isWhiteSpace c \<longleftrightarrow>
     c \<in> {0x0009, 0x000A, 0x000B, 0x000C, 0x000D, 0x0020, 0x00A0, 0x1680,
          0x2028, 0x2029, 0x202F, 0x205F, 0x3000, 0xFEFF}
     \<or> (0x2000 \<le> c \<and> c \<le> 0x200A)"

definition trim :: "jsstring \<Rightarrow> jsstring" where
  "trim s = rev (dropWhile isWhiteSpace (rev (dropWhile isWhiteSpace s)))"

text \<open>
  \<^verbatim>\<open>s.split(sep)\<close> for a one-character separator: the pieces between the occurrences
  of the separator, always at least one piece (\<^verbatim>\<open>"".split("|")\<close> is \<^verbatim>\<open>[""]\<close>).
\<close>

fun split_js :: "'a \<Rightarrow> 'a list \<Rightarrow> 'a list list" where
  "split_js sep [] = [[]]"
| "split_js sep (c # cs) =
     (if c = sep then [] # split_js sep cs
      else (case split_js sep cs of [] \<Rightarrow> [[c]] | w # ws \<Rightarrow> (c # w) # ws))"

text \<open>\<^verbatim>\<open>parts.join(sep)\<close> for an array of strings.\<close>

fun join_js :: "'a \<Rightarrow> 'a list list \<Rightarrow> 'a list" where
  "join_js sep [] = []"
| "join_js sep [x] = x"
| "join_js sep (x # y # ys) = x @ sep # join_js sep (y # ys)"

text \<open>
  Reading element \<open>i\<close> of an array, as the destructuring
  \<^verbatim>\<open>const [mtype, stream, source] = msgParts.slice(0, 3)\<close> does: \<^verbatim>\<open>undefined\<close> past the end.
\<close>

definition element :: "'a list \<Rightarrow> nat \<Rightarrow> 'a option" where
  "element xs i = (if i < length xs then Some (xs ! i) else None)"

text \<open>Conversion to a string, as a template literal or a property key does it.\<close>

definition toString_js :: "jsval \<Rightarrow> jsstring" where
  "toString_js v = (case v of None \<Rightarrow> js ''undefined'' | Some s \<Rightarrow> s)"


section \<open>The input registry\<close>

text \<open>
  The class \<^verbatim>\<open>InputRegistry\<close> is imported from \<^verbatim>\<open>./inputs\<close>, which is not among the
  sources; the server only calls \<^verbatim>\<open>add\<close>, \<^verbatim>\<open>remove\<close> and \<^verbatim>\<open>getInputs\<close>.  The registry
  is therefore modelled from the specification, section 4.2.  The function that derives
  a channel id from a pair is left open by the specification and is a parameter
  \<open>derive\<close> of the model.
\<close>

text \<open>
  Modelled from the spec: an Input, one logical log source, with its stream, its source
  and the channel id derived from the two (section 3).
\<close>

record ('a, 'c) Input =
  stream :: 'a
  source :: 'a
  channelId :: 'c

type_synonym ('a, 'c) InputRegistry = "('a, 'c) Input list"

text \<open>Modelled from the spec: a freshly constructed \<^verbatim>\<open>InputRegistry\<close> holds no Input.\<close>

definition InputRegistry_new :: "('a, 'c) InputRegistry" where
  "InputRegistry_new = []"

text \<open>Modelled from the spec: the registry is keyed by the (stream, source) pair.\<close>

definition samePair :: "'a \<Rightarrow> 'a \<Rightarrow> ('a, 'c) Input \<Rightarrow> bool" where
  "samePair s src i \<longleftrightarrow> stream i = s \<and> source i = src"

text \<open>
  Modelled from the spec: \<^verbatim>\<open>InputRegistry.add\<close>.  ``If the pair is unseen, create and
  store an Input, generate its channelId deterministically, and return it; if already
  present, return the existing channelId unchanged.''  The result is the returned channel
  id and the registry afterwards; Inputs are kept in registration order.
\<close>

definition InputRegistry_add ::
  "('a \<Rightarrow> 'a \<Rightarrow> 'c) \<Rightarrow> ('a, 'c) InputRegistry \<Rightarrow> 'a \<Rightarrow> 'a \<Rightarrow> 'c \<times> ('a, 'c) InputRegistry" where
  "InputRegistry_add derive reg s src =
     (case find (samePair s src) reg of
        Some i \<Rightarrow> (channelId i, reg)
      | None \<Rightarrow>
          (derive s src, reg @ [\<lparr>stream = s, source = src, channelId = derive s src\<rparr>]))"

text \<open>
  Modelled from the spec: \<^verbatim>\<open>InputRegistry.remove\<close>.  ``Delete the Input for the pair if
  present, returning its (former) channelId; if the pair was never registered, returns a
  deterministically-computed channelId anyway (the same derivation function as add)
  without mutating state.''
\<close>

definition InputRegistry_remove ::
  "('a \<Rightarrow> 'a \<Rightarrow> 'c) \<Rightarrow> ('a, 'c) InputRegistry \<Rightarrow> 'a \<Rightarrow> 'a \<Rightarrow> 'c \<times> ('a, 'c) InputRegistry" where
  "InputRegistry_remove derive reg s src =
     (case find (samePair s src) reg of
        Some i \<Rightarrow> (channelId i, filter (\<lambda>j. \<not> samePair s src j) reg)
      | None \<Rightarrow> (derive s src, reg))"

text \<open>
  Modelled from the spec: \<^verbatim>\<open>list()\<close> (\<^verbatim>\<open>getInputs()\<close> in the server), ``all currently
  registered Inputs'', in registration order.
\<close>

definition InputRegistry_list :: "('a, 'c) InputRegistry \<Rightarrow> ('a, 'c) Input list" where
  "InputRegistry_list reg = reg"

text \<open>
  Sequences of registry operations, to speak about every state a registry can be in:
  the states reached from a new registry by calls of \<^verbatim>\<open>add\<close> and \<^verbatim>\<open>remove\<close>.
\<close>

datatype 'a registry_op = Add 'a 'a | Remove 'a 'a

fun apply_op ::
  "('a \<Rightarrow> 'a \<Rightarrow> 'c) \<Rightarrow> ('a, 'c) InputRegistry \<Rightarrow> 'a registry_op \<Rightarrow> ('a, 'c) InputRegistry" where
  "apply_op derive reg (Add s src) = snd (InputRegistry_add derive reg s src)"
| "apply_op derive reg (Remove s src) = snd (InputRegistry_remove derive reg s src)"

definition run_ops :: "('a \<Rightarrow> 'a \<Rightarrow> 'c) \<Rightarrow> 'a registry_op list \<Rightarrow> ('a, 'c) InputRegistry" where
  "run_ops derive ops = foldl (apply_op derive) InputRegistry_new ops"

text \<open>
  Modelled from the spec: one derivation function, the join of the two names with the
  field separator (the design notes call the channel id ``a deterministic hash/join of
  (stream, source)'').  It is used only to evaluate the model at concrete inputs.
\<close>

definition joinChannelId :: "jsval \<Rightarrow> jsval \<Rightarrow> jsstring" where
  "joinChannelId s src = toString_js s @ BAR # toString_js src"


section \<open>The server state and its collaborators\<close>

text \<open>
  The objects an event carries: \<^verbatim>\<open>{inputName, msg, stream, source}\<close> for a message and
  \<^verbatim>\<open>{inputName, stream, source}\<close> for a ping, a registration and a deregistration.
\<close>

datatype payload =
    MessagePayload jsstring jsstring jsval jsval
  | InputPayload jsstring jsval jsval

text \<open>
  The calls the server makes on its collaborators, in program order:
  \<^verbatim>\<open>inputs.add\<close>, \<^verbatim>\<open>inputs.remove\<close>, \<^verbatim>\<open>io.to(room).emit(name, data)\<close>,
  \<^verbatim>\<open>io.emit(name, data)\<close>, \<^verbatim>\<open>logger.error\<close> and \<^verbatim>\<open>logger.debug\<close>.
\<close>

datatype call =
    InputsAdd jsval jsval
  | InputsRemove jsval jsval
  | IoToEmit jsstring jsval payload
  | IoEmit jsval payload
  | LoggerError jsstring
  | LoggerDebug jsstring

record ServerConfig =
  debug :: bool

record server =
  inputs :: "(jsval, jsstring) InputRegistry"
  calls :: "call list"

definition inputs_add ::
  "(jsval \<Rightarrow> jsval \<Rightarrow> jsstring) \<Rightarrow> jsval \<Rightarrow> jsval \<Rightarrow> server \<Rightarrow> jsstring \<times> server" where
  "inputs_add derive s src st =
     (case InputRegistry_add derive (inputs st) s src of
        (c, reg) \<Rightarrow> (c, st\<lparr>inputs := reg, calls := calls st @ [InputsAdd s src]\<rparr>))"

definition inputs_remove ::
  "(jsval \<Rightarrow> jsval \<Rightarrow> jsstring) \<Rightarrow> jsval \<Rightarrow> jsval \<Rightarrow> server \<Rightarrow> jsstring \<times> server" where
  "inputs_remove derive s src st =
     (case InputRegistry_remove derive (inputs st) s src of
        (c, reg) \<Rightarrow> (c, st\<lparr>inputs := reg, calls := calls st @ [InputsRemove s src]\<rparr>))"

definition io_to_emit :: "jsstring \<Rightarrow> jsval \<Rightarrow> payload \<Rightarrow> server \<Rightarrow> server" where
  "io_to_emit room name d st = st\<lparr>calls := calls st @ [IoToEmit room name d]\<rparr>"

definition io_emit :: "jsval \<Rightarrow> payload \<Rightarrow> server \<Rightarrow> server" where
  "io_emit name d st = st\<lparr>calls := calls st @ [IoEmit name d]\<rparr>"

definition logger_error :: "jsstring \<Rightarrow> server \<Rightarrow> server" where
  "logger_error text st = st\<lparr>calls := calls st @ [LoggerError text]\<rparr>"

definition logger_debug :: "jsstring \<Rightarrow> server \<Rightarrow> server" where
  "logger_debug text st = st\<lparr>calls := calls st @ [LoggerDebug text]\<rparr>"


section \<open>The message handlers\<close>

definition handleNewMessage ::
  "(jsval \<Rightarrow> jsval \<Rightarrow> jsstring) \<Rightarrow> ServerConfig \<Rightarrow> server \<Rightarrow> jsstring list \<Rightarrow> server" where
  "handleNewMessage derive config st msgParts =
     (let mtype = element (take 3 msgParts) 0;
          strm = element (take 3 msgParts) 1;
          src = element (take 3 msgParts) 2;
          msg = join_js BAR (drop 3 msgParts)
      in case inputs_add derive strm src st of
           (inputName, st1) \<Rightarrow>
             (let st2 = io_to_emit inputName mtype (MessagePayload inputName msg strm src) st1;
                  st3 = io_emit (Some (js ''+ping'')) (InputPayload inputName strm src) st2
              in if debug config then logger_debug (join_js BAR msgParts) st3 else st3))"

definition handleRegisterInput ::
  "(jsval \<Rightarrow> jsval \<Rightarrow> jsstring) \<Rightarrow> ServerConfig \<Rightarrow> server \<Rightarrow> jsstring list \<Rightarrow> server" where
  "handleRegisterInput derive config st msgParts =
     (let mtype = element (take 3 msgParts) 0;
          strm = element (take 3 msgParts) 1;
          src = element (take 3 msgParts) 2
      in case inputs_add derive strm src st of
           (inputName, st1) \<Rightarrow> io_emit mtype (InputPayload inputName strm src) st1)"

definition handleDeregisterInput ::
  "(jsval \<Rightarrow> jsval \<Rightarrow> jsstring) \<Rightarrow> ServerConfig \<Rightarrow> server \<Rightarrow> jsstring list \<Rightarrow> server" where
  "handleDeregisterInput derive config st msgParts =
     (let mtype = element (take 3 msgParts) 0;
          strm = element (take 3 msgParts) 1;
          src = element (take 3 msgParts) 2
      in case inputs_remove derive strm src st of
           (inputName, st1) \<Rightarrow> io_emit mtype (InputPayload inputName strm src) st1)"

text \<open>
  \<^verbatim>\<open>messageHandlers\<close> is an object literal with the three own properties \<^verbatim>\<open>'+msg'\<close>,
  \<^verbatim>\<open>'+input'\<close> and \<^verbatim>\<open>'-input'\<close>.  The lookup \<^verbatim>\<open>messageHandlers[msgParts[0]]\<close> is a
  property read: a key that is no own property is looked up in \<^verbatim>\<open>Object.prototype\<close>,
  whose properties are all truthy (eleven functions, and the object that the accessor
  \<^verbatim>\<open>__proto__\<close> returns).  Any other key yields \<^verbatim>\<open>undefined\<close>.
\<close>

datatype handler =
    HandleNewMessage
  | HandleRegisterInput
  | HandleDeregisterInput
  | ObjectPrototypeProperty

definition objectPrototypeKeys :: "jsstring list" where
  "objectPrototypeKeys =
     [js ''constructor'', js ''__defineGetter__'', js ''__defineSetter__'',
      js ''hasOwnProperty'', js ''__lookupGetter__'', js ''__lookupSetter__'',
      js ''isPrototypeOf'', js ''propertyIsEnumerable'', js ''toString'',
      js ''valueOf'', js ''__proto__'', js ''toLocaleString'']"

definition messageHandlers :: "jsstring \<Rightarrow> handler option" where
  "messageHandlers key =
     (if key = js ''+msg'' then Some HandleNewMessage
      else if key = js ''+input'' then Some HandleRegisterInput
      else if key = js ''-input'' then Some HandleDeregisterInput
      else if key \<in> set objectPrototypeKeys then Some ObjectPrototypeProperty
      else None)"

text \<open>
  \<^verbatim>\<open>await messageHandler(config, inputs, io, msgParts)\<close>.  No handler awaits anything, so
  its body runs to its end within the call.  A value inherited from \<^verbatim>\<open>Object.prototype\<close>
  is called with these four arguments: the call returns a value that is dropped, or it
  throws a TypeError that rejects the promise of the enclosing async callback, which
  \<^verbatim>\<open>forEach\<close> drops.  Either way the registry, the socket server and the logger are not
  touched.
\<close>

fun invoke ::
  "handler \<Rightarrow> (jsval \<Rightarrow> jsval \<Rightarrow> jsstring) \<Rightarrow> ServerConfig \<Rightarrow> server \<Rightarrow> jsstring list \<Rightarrow> server" where
  "invoke HandleNewMessage derive config st msgParts = handleNewMessage derive config st msgParts"
| "invoke HandleRegisterInput derive config st msgParts = handleRegisterInput derive config st msgParts"
| "invoke HandleDeregisterInput derive config st msgParts = handleDeregisterInput derive config st msgParts"
| "invoke ObjectPrototypeProperty derive config st msgParts = st"


section \<open>The wire parser and the router\<close>

text \<open>
  The array \<^verbatim>\<open>msgs\<close> of \<^verbatim>\<open>broadcastMessage\<close>:
  \<^verbatim>\<open>data.toString().split('\0').slice(0, -1).filter((msg) => !!msg.trim())\<close>.
\<close>

definition msgs_of :: "jsstring \<Rightarrow> jsstring list" where
  "msgs_of text = filter (\<lambda>msg. trim msg \<noteq> []) (butlast (split_js NUL text))"

text \<open>The callback that \<^verbatim>\<open>msgs.forEach\<close> runs on every message.\<close>

definition broadcastMessage_each ::
  "(jsval \<Rightarrow> jsval \<Rightarrow> jsstring) \<Rightarrow> ServerConfig \<Rightarrow> server \<Rightarrow> jsstring \<Rightarrow> server" where
  "broadcastMessage_each derive config st msg =
     (let msgParts = split_js BAR msg
      in case messageHandlers (toString_js (element msgParts 0)) of
           Some messageHandler \<Rightarrow> invoke messageHandler derive config st msgParts
         | None \<Rightarrow>
             logger_error (js ''Unknown message type: '' @ toString_js (element msgParts 0)) st)"

definition broadcastMessage ::
  "(jsval \<Rightarrow> jsval \<Rightarrow> jsstring) \<Rightarrow> ServerConfig \<Rightarrow> server \<Rightarrow> jsstring \<Rightarrow> server" where
  "broadcastMessage derive config st text =
     foldl (broadcastMessage_each derive config) st (msgs_of text)"

text \<open>The state in which \<^verbatim>\<open>main\<close> creates the registry, before any call.\<close>

definition initial :: server where
  "initial = \<lparr>inputs = InputRegistry_new, calls = []\<rparr>"


section \<open>Viewers\<close>

text \<open>
  A viewer is a socket with the set of rooms it has joined (\<^verbatim>\<open>'+activate'\<close> joins the
  room named by a channel id, \<^verbatim>\<open>'-activate'\<close> leaves it).  The socket server delivers
  \<^verbatim>\<open>io.to(room).emit\<close> to the sockets in the room and \<^verbatim>\<open>io.emit\<close> to every socket.
\<close>

fun delivered :: "jsstring set \<Rightarrow> call \<Rightarrow> bool" where
  "delivered rooms (IoToEmit room name d) = (room \<in> rooms)"
| "delivered rooms (IoEmit name d) = True"
| "delivered rooms (InputsAdd s src) = False"
| "delivered rooms (InputsRemove s src) = False"
| "delivered rooms (LoggerError text) = False"
| "delivered rooms (LoggerDebug text) = False"

definition received :: "jsstring set \<Rightarrow> call list \<Rightarrow> call list" where
  "received rooms cs = filter (delivered rooms) cs"

text \<open>The calls a step has added to the trace.\<close>

definition new_calls :: "server \<Rightarrow> server \<Rightarrow> call list" where
  "new_calls st st' = drop (length (calls st)) (calls st')"

text \<open>
  The registry as it stands after a prefix of the trace: the registry calls of the
  prefix, applied in order.
\<close>

fun replay ::
  "(jsval \<Rightarrow> jsval \<Rightarrow> jsstring) \<Rightarrow> (jsval, jsstring) InputRegistry \<Rightarrow> call list \<Rightarrow>
     (jsval, jsstring) InputRegistry" where
  "replay derive reg [] = reg"
| "replay derive reg (InputsAdd s src # cs) =
     replay derive (snd (InputRegistry_add derive reg s src)) cs"
| "replay derive reg (InputsRemove s src # cs) =
     replay derive (snd (InputRegistry_remove derive reg s src)) cs"
| "replay derive reg (c # cs) = replay derive reg cs"

fun is_mutation :: "call \<Rightarrow> bool" where
  "is_mutation (InputsAdd s src) = True"
| "is_mutation (InputsRemove s src) = True"
| "is_mutation c = False"

fun is_emission :: "call \<Rightarrow> bool" where
  "is_emission (IoToEmit room name d) = True"
| "is_emission (IoEmit name d) = True"
| "is_emission c = False"

section \<open>Facts about splitting, joining and trimming\<close>

lemma split_js_not_Nil: "split_js sep s \<noteq> []"
  by (induction s) (auto split: list.splits)

lemma split_js_no_sep: "sep \<notin> set a \<Longrightarrow> split_js sep a = [a]"
  by (induction a) auto

lemma split_js_append:
  "sep \<notin> set a \<Longrightarrow> split_js sep (a @ sep # rest) = a # split_js sep rest"
  by (induction a) auto

lemma join_js_Cons: "ys \<noteq> [] \<Longrightarrow> join_js sep (x # ys) = x @ sep # join_js sep ys"
  by (cases ys) auto

lemma join_js_split_js: "join_js sep (split_js sep s) = s"
proof (induction s)
  case Nil
  show ?case by simp
next
  case (Cons c cs)
  show ?case
  proof (cases "c = sep")
    case True
    with Cons show ?thesis by (simp add: join_js_Cons split_js_not_Nil)
  next
    case False
    obtain w ws where w: "split_js sep cs = w # ws"
      using split_js_not_Nil [of sep cs] by (cases "split_js sep cs") auto
    with Cons False show ?thesis by (cases ws) auto
  qed
qed

lemma trim_not_Nil_iff: "trim m \<noteq> [] \<longleftrightarrow> (\<exists>c\<in>set m. \<not> isWhiteSpace c)"
proof -
  let ?d = "dropWhile isWhiteSpace m"
  have "trim m \<noteq> [] \<longleftrightarrow> ?d \<noteq> []"
  proof (cases "?d = []")
    case True
    then show ?thesis by (auto simp: trim_def dest: set_dropWhileD)
  next
    case False
    then have "hd ?d \<in> set ?d" and "\<not> isWhiteSpace (hd ?d)"
      by (simp_all add: hd_dropWhile)
    then have "\<not> (\<forall>x\<in>set ?d. isWhiteSpace x)" by blast
    with False show ?thesis by (simp add: trim_def)
  qed
  also have "\<dots> \<longleftrightarrow> (\<exists>c\<in>set m. \<not> isWhiteSpace c)"
    by simp
  finally show ?thesis .
qed

lemma split_js_frames:
  "\<forall>m\<in>set ms. sep \<notin> set m \<Longrightarrow> sep \<notin> set t \<Longrightarrow>
     split_js sep (concat (map (\<lambda>m. m @ [sep]) ms) @ t) = ms @ [t]"
  by (induction ms) (simp_all add: split_js_no_sep split_js_append)


section \<open>The registry: one Input per pair\<close>

lemma find_samePair_None_iff:
  "find (samePair s src) reg = None \<longleftrightarrow> (s, src) \<notin> set (map (\<lambda>i. (stream i, source i)) reg)"
  by (induction reg) (auto simp: samePair_def)

lemma find_append_js:
  "find P (xs @ ys) = (case find P xs of None \<Rightarrow> find P ys | Some x \<Rightarrow> Some x)"
  by (induction xs) auto

lemma add_distinct:
  "distinct (map (\<lambda>i. (stream i, source i)) reg) \<Longrightarrow>
     distinct (map (\<lambda>i. (stream i, source i)) (snd (InputRegistry_add derive reg s src)))"
  by (auto simp: InputRegistry_add_def find_samePair_None_iff split: option.splits)

lemma remove_distinct:
  "distinct (map (\<lambda>i. (stream i, source i)) reg) \<Longrightarrow>
     distinct (map (\<lambda>i. (stream i, source i)) (snd (InputRegistry_remove derive reg s src)))"
  by (auto simp: InputRegistry_remove_def distinct_map_filter split: option.splits)

lemma foldl_ops_distinct:
  "distinct (map (\<lambda>i. (stream i, source i)) reg) \<Longrightarrow>
     distinct (map (\<lambda>i. (stream i, source i)) (foldl (apply_op derive) reg ops))"
proof (induction ops arbitrary: reg)
  case Nil
  then show ?case by simp
next
  case (Cons op ops)
  then show ?case by (cases op) (simp_all add: add_distinct remove_distinct)
qed

lemma run_ops_distinct: "distinct (map (\<lambda>i. (stream i, source i)) (run_ops derive ops))"
  unfolding run_ops_def by (rule foldl_ops_distinct) (simp add: InputRegistry_new_def)

lemma find_after_add:
  "find (samePair s src) (snd (InputRegistry_add derive reg s src)) \<noteq> None"
proof (cases "find (samePair s src) reg")
  case None
  then show ?thesis by (simp add: InputRegistry_add_def find_append_js samePair_def)
next
  case (Some i)
  then show ?thesis by (simp add: InputRegistry_add_def)
qed

lemma add_twice:
  "InputRegistry_add derive (snd (InputRegistry_add derive reg s src)) s src =
     InputRegistry_add derive reg s src"
proof (cases "find (samePair s src) reg")
  case None
  then have "find (samePair s src) (reg @ [\<lparr>stream = s, source = src, channelId = derive s src\<rparr>])
      = Some \<lparr>stream = s, source = src, channelId = derive s src\<rparr>"
    by (simp add: find_append_js samePair_def)
  with None show ?thesis by (simp add: InputRegistry_add_def)
next
  case (Some i)
  then show ?thesis by (simp add: InputRegistry_add_def)
qed

lemma distinct_filter_samePair:
  "distinct (map (\<lambda>i. (stream i, source i)) reg) \<Longrightarrow> length (filter (samePair s src) reg) \<le> 1"
proof (induction reg)
  case Nil
  then show ?case by simp
next
  case (Cons i reg)
  show ?case
  proof (cases "samePair s src i")
    case True
    with Cons.prems have "filter (samePair s src) reg = []"
      by (auto simp: filter_empty_conv samePair_def image_iff)
    with True show ?thesis by simp
  next
    case False
    with Cons show ?thesis by simp
  qed
qed

lemma filter_after_add:
  "filter (samePair s src) (snd (InputRegistry_add derive reg s src)) \<noteq> []"
  using find_after_add [of s src derive reg]
  by (auto simp: find_None_iff filter_empty_conv)

text \<open>
  C4.  \<^verbatim>\<open>add\<close> is idempotent.  In every state \<open>run_ops derive ops\<close> a registry can reach,
  a second \<^verbatim>\<open>add\<close> of the same pair returns the channel id the first one returned and
  leaves the registry as the first one left it; \<^verbatim>\<open>list()\<close> then holds exactly one Input
  for the pair (and exactly one Input at all when the registry was new); and in every
  reachable state no two Inputs of \<^verbatim>\<open>list()\<close> have the same (stream, source) pair.
\<close>

theorem InputRegistry_add_idempotent:
  "fst (InputRegistry_add derive (snd (InputRegistry_add derive (run_ops derive ops) s src)) s src)
     = fst (InputRegistry_add derive (run_ops derive ops) s src)
   \<and> snd (InputRegistry_add derive (snd (InputRegistry_add derive (run_ops derive ops) s src)) s src)
     = snd (InputRegistry_add derive (run_ops derive ops) s src)
   \<and> length (filter (samePair s src)
       (InputRegistry_list
          (snd (InputRegistry_add derive (snd (InputRegistry_add derive (run_ops derive ops) s src)) s src))))
     = 1
   \<and> length (InputRegistry_list
       (snd (InputRegistry_add derive (snd (InputRegistry_add derive InputRegistry_new s src)) s src)))
     = 1
   \<and> distinct (map (\<lambda>i. (stream i, source i)) (InputRegistry_list (run_ops derive ops)))"
proof -
  let ?r0 = "run_ops derive ops"
  let ?r1 = "snd (InputRegistry_add derive ?r0 s src)"
  have d1: "distinct (map (\<lambda>i. (stream i, source i)) ?r1)"
    by (rule add_distinct) (rule run_ops_distinct)
  have "length (filter (samePair s src) ?r1) \<le> 1"
    using d1 by (rule distinct_filter_samePair)
  moreover have "filter (samePair s src) ?r1 \<noteq> []"
    by (rule filter_after_add)
  ultimately have one: "length (filter (samePair s src) ?r1) = 1"
    by (cases "filter (samePair s src) ?r1") auto
  have new: "length (snd (InputRegistry_add derive InputRegistry_new s src)) = 1"
    by (simp add: InputRegistry_add_def InputRegistry_new_def)
  show ?thesis
    using one new by (simp add: add_twice InputRegistry_list_def run_ops_distinct)
qed

theorem InputRegistry_add_idempotent_witness:
  "InputRegistry_add joinChannelId
     (snd (InputRegistry_add joinChannelId
        (run_ops joinChannelId [Add (Some (js ''sys'')) (Some (js ''host2''))])
        (Some (js ''app'')) (Some (js ''host1''))))
     (Some (js ''app'')) (Some (js ''host1''))
   = (js ''app|host1'',
      [\<lparr>stream = Some (js ''sys''), source = Some (js ''host2''), channelId = js ''sys|host2''\<rparr>,
       \<lparr>stream = Some (js ''app''), source = Some (js ''host1''), channelId = js ''app|host1''\<rparr>])"
  using InputRegistry_add_idempotent
    [of joinChannelId "[Add (Some (js ''sys'')) (Some (js ''host2''))]"
       "Some (js ''app'')" "Some (js ''host1'')"]
  by (simp add: run_ops_def InputRegistry_add_def InputRegistry_new_def samePair_def
      joinChannelId_def toString_js_def js_def BAR_def)

text \<open>
  C5.  \<^verbatim>\<open>remove\<close> of a pair that the registry does not hold leaves the registry as it
  is and returns the channel id that the derivation function computes for the pair, the
  one \<^verbatim>\<open>add\<close> would return for it; no error is a possible result.  On a new registry
  \<^verbatim>\<open>remove("x","y")\<close> leaves \<^verbatim>\<open>list()\<close> empty.
\<close>

theorem InputRegistry_remove_unknown:
  "\<not> (\<exists>i\<in>set (InputRegistry_list reg). samePair s src i) \<Longrightarrow>
     InputRegistry_remove derive reg s src = (derive s src, reg)
     \<and> fst (InputRegistry_add derive reg s src) = derive s src"
proof -
  assume "\<not> (\<exists>i\<in>set (InputRegistry_list reg). samePair s src i)"
  then have "find (samePair s src) reg = None"
    by (simp add: find_None_iff InputRegistry_list_def)
  then show ?thesis
    by (simp add: InputRegistry_remove_def InputRegistry_add_def)
qed

theorem InputRegistry_remove_unknown_witness:
  "InputRegistry_list (InputRegistry_new :: (jsval, jsstring) InputRegistry) = []
   \<and> InputRegistry_remove joinChannelId InputRegistry_new (Some (js ''x'')) (Some (js ''y''))
     = (js ''x|y'', InputRegistry_new)
   \<and> InputRegistry_list
       (snd (InputRegistry_remove joinChannelId InputRegistry_new (Some (js ''x'')) (Some (js ''y''))))
     = []"
  using InputRegistry_remove_unknown
    [of "InputRegistry_new :: (jsval, jsstring) InputRegistry" "Some (js ''x'')" "Some (js ''y'')"
       joinChannelId]
  by (simp add: InputRegistry_list_def InputRegistry_new_def joinChannelId_def toString_js_def
      js_def BAR_def)


section \<open>Facts about the handlers and the router\<close>

lemma element_take: "i < n \<Longrightarrow> element (take n xs) i = element xs i"
  by (simp add: element_def)

lemma element_split_js_0: "element (split_js sep s) 0 = Some (hd (split_js sep s))"
  using split_js_not_Nil [of sep s] by (cases "split_js sep s") (simp_all add: element_def)

lemma handleNewMessage_eq:
  "handleNewMessage derive config st msgParts =
     st\<lparr>inputs := snd (InputRegistry_add derive (inputs st) (element msgParts 1) (element msgParts 2)),
        calls := calls st @
          [InputsAdd (element msgParts 1) (element msgParts 2),
           IoToEmit (fst (InputRegistry_add derive (inputs st) (element msgParts 1) (element msgParts 2)))
             (element msgParts 0)
             (MessagePayload
                (fst (InputRegistry_add derive (inputs st) (element msgParts 1) (element msgParts 2)))
                (join_js BAR (drop 3 msgParts)) (element msgParts 1) (element msgParts 2)),
           IoEmit (Some (js ''+ping''))
             (InputPayload
                (fst (InputRegistry_add derive (inputs st) (element msgParts 1) (element msgParts 2)))
                (element msgParts 1) (element msgParts 2))]
          @ (if debug config then [LoggerDebug (join_js BAR msgParts)] else [])\<rparr>"
  by (simp add: handleNewMessage_def inputs_add_def io_to_emit_def io_emit_def logger_debug_def
      element_take Let_def split: prod.splits)

lemma handleRegisterInput_eq:
  "handleRegisterInput derive config st msgParts =
     st\<lparr>inputs := snd (InputRegistry_add derive (inputs st) (element msgParts 1) (element msgParts 2)),
        calls := calls st @
          [InputsAdd (element msgParts 1) (element msgParts 2),
           IoEmit (element msgParts 0)
             (InputPayload
                (fst (InputRegistry_add derive (inputs st) (element msgParts 1) (element msgParts 2)))
                (element msgParts 1) (element msgParts 2))]\<rparr>"
  by (simp add: handleRegisterInput_def inputs_add_def io_emit_def
      element_take Let_def split: prod.splits)

lemma handleDeregisterInput_eq:
  "handleDeregisterInput derive config st msgParts =
     st\<lparr>inputs := snd (InputRegistry_remove derive (inputs st) (element msgParts 1) (element msgParts 2)),
        calls := calls st @
          [InputsRemove (element msgParts 1) (element msgParts 2),
           IoEmit (element msgParts 0)
             (InputPayload
                (fst (InputRegistry_remove derive (inputs st) (element msgParts 1) (element msgParts 2)))
                (element msgParts 1) (element msgParts 2))]\<rparr>"
  by (simp add: handleDeregisterInput_def inputs_remove_def io_emit_def
      element_take Let_def split: prod.splits)

lemma new_calls_append [simp]: "new_calls st (st'\<lparr>calls := calls st @ cs\<rparr>) = cs"
  by (simp add: new_calls_def)

lemma js_tags:
  "js ''+msg'' \<noteq> js ''+input''" "js ''+msg'' \<noteq> js ''-input''" "js ''+input'' \<noteq> js ''-input''"
  "js ''+input'' \<noteq> js ''+msg''" "js ''-input'' \<noteq> js ''+msg''" "js ''-input'' \<noteq> js ''+input''"
  by (simp_all add: js_def)

lemma each_msg:
  "hd (split_js BAR seg) = js ''+msg'' \<Longrightarrow>
     broadcastMessage_each derive config st seg = handleNewMessage derive config st (split_js BAR seg)"
  by (simp add: broadcastMessage_each_def element_split_js_0 toString_js_def messageHandlers_def)

lemma each_input:
  "hd (split_js BAR seg) = js ''+input'' \<Longrightarrow>
     broadcastMessage_each derive config st seg = handleRegisterInput derive config st (split_js BAR seg)"
  by (simp add: broadcastMessage_each_def element_split_js_0 toString_js_def messageHandlers_def js_tags)

lemma each_deinput:
  "hd (split_js BAR seg) = js ''-input'' \<Longrightarrow>
     broadcastMessage_each derive config st seg = handleDeregisterInput derive config st (split_js BAR seg)"
  by (simp add: broadcastMessage_each_def element_split_js_0 toString_js_def messageHandlers_def js_tags)

lemma each_unknown:
  "messageHandlers (hd (split_js BAR seg)) = None \<Longrightarrow>
     broadcastMessage_each derive config st seg =
       st\<lparr>calls := calls st @ [LoggerError (js ''Unknown message type: '' @ hd (split_js BAR seg))]\<rparr>"
  by (simp add: broadcastMessage_each_def element_split_js_0 toString_js_def logger_error_def)

lemma each_inherited:
  "messageHandlers (hd (split_js BAR seg)) = Some ObjectPrototypeProperty \<Longrightarrow>
     broadcastMessage_each derive config st seg = st"
  by (simp add: broadcastMessage_each_def element_split_js_0 toString_js_def)

lemma BAR_notin_tags:
  "BAR \<notin> set (js ''+msg'')" "BAR \<notin> set (js ''+input'')" "BAR \<notin> set (js ''-input'')"
  by (simp_all add: js_def BAR_def)

lemma set_split_js_no_sep: "seg \<in> set (split_js sep s) \<Longrightarrow> sep \<notin> set seg"
proof (induction s arbitrary: seg)
  case Nil
  then show ?case by simp
next
  case (Cons c cs)
  obtain w ws where w: "split_js sep cs = w # ws"
    using split_js_not_Nil [of sep cs] by (cases "split_js sep cs") auto
  with Cons show ?case by (auto split: if_splits)
qed

lemma msgs_of_example:
  "msgs_of (js ''+msg|a|b|hello'' @ NUL # js ''+msg|a|b|world'') = [js ''+msg|a|b|hello'']"
  by (simp add: msgs_of_def js_def NUL_def trim_def isWhiteSpace_def)

text \<open>The definitions that evaluate the model at a concrete input.\<close>

lemmas eval_defs =
  broadcastMessage_def msgs_of_def trim_def isWhiteSpace_def broadcastMessage_each_def
  messageHandlers_def objectPrototypeKeys_def handleNewMessage_def handleRegisterInput_def
  handleDeregisterInput_def inputs_add_def inputs_remove_def io_to_emit_def io_emit_def
  logger_error_def logger_debug_def InputRegistry_add_def InputRegistry_remove_def
  InputRegistry_list_def InputRegistry_new_def samePair_def joinChannelId_def toString_js_def
  element_def initial_def new_calls_def received_def js_def NUL_def BAR_def Let_def

section \<open>The wire parser\<close>

text \<open>
  C1.  For every decoded chunk, \<^verbatim>\<open>broadcastMessage\<close> runs the router on exactly the
  pieces of the split at \<^verbatim>\<open>'\0'\<close>, the last piece left out, that hold a character
  other than white space, in their order.  The pieces are the text between the
  terminators: joined with the terminator they give the chunk back and none holds a
  terminator, so that a chunk of terminated messages \<open>ms\<close> followed by a fragment \<open>t\<close>
  yields \<open>ms\<close> and loses \<open>t\<close>.  For the chunk \<^verbatim>\<open>"+msg|a|b|hello\0+msg|a|b|world"\<close>
  only the \<^verbatim>\<open>hello\<close> message is routed.
\<close>

theorem broadcastMessage_segments:
  "broadcastMessage derive config st text =
     foldl (broadcastMessage_each derive config) st
       (filter (\<lambda>seg. \<exists>c\<in>set seg. \<not> isWhiteSpace c) (butlast (split_js NUL text)))
   \<and> join_js NUL (split_js NUL text) = text
   \<and> (\<forall>seg\<in>set (split_js NUL text). NUL \<notin> set seg)
   \<and> ((\<forall>m\<in>set ms. NUL \<notin> set m) \<longrightarrow> NUL \<notin> set t \<longrightarrow>
        butlast (split_js NUL (concat (map (\<lambda>m. m @ [NUL]) ms) @ t)) = ms)
   \<and> broadcastMessage derive config st (js ''+msg|a|b|hello'' @ NUL # js ''+msg|a|b|world'')
       = broadcastMessage_each derive config st (js ''+msg|a|b|hello'')"
proof -
  have "msgs_of text = filter (\<lambda>seg. \<exists>c\<in>set seg. \<not> isWhiteSpace c) (butlast (split_js NUL text))"
    by (simp add: msgs_of_def trim_not_Nil_iff)
  then have a: "broadcastMessage derive config st text =
     foldl (broadcastMessage_each derive config) st
       (filter (\<lambda>seg. \<exists>c\<in>set seg. \<not> isWhiteSpace c) (butlast (split_js NUL text)))"
    by (simp add: broadcastMessage_def)
  have b: "(\<forall>m\<in>set ms. NUL \<notin> set m) \<longrightarrow> NUL \<notin> set t \<longrightarrow>
        butlast (split_js NUL (concat (map (\<lambda>m. m @ [NUL]) ms) @ t)) = ms"
    by (simp add: split_js_frames)
  have c: "broadcastMessage derive config st (js ''+msg|a|b|hello'' @ NUL # js ''+msg|a|b|world'')
       = broadcastMessage_each derive config st (js ''+msg|a|b|hello'')"
    by (simp add: broadcastMessage_def msgs_of_example)
  from a b c show ?thesis
    by (simp add: join_js_split_js set_split_js_no_sep)
qed

theorem broadcastMessage_segments_witness:
  "NUL \<notin> set (js '' '') \<and> NUL \<notin> set (js ''+input|a|b'')
   \<and> NUL \<notin> set (js ''+msg|a|b|world'')
   \<and> butlast (split_js NUL (js '' '' @ NUL # js ''+input|a|b'' @ NUL # js ''+msg|a|b|world''))
       = [js '' '', js ''+input|a|b'']
   \<and> calls (broadcastMessage joinChannelId \<lparr>debug = False\<rparr> initial
        (js '' '' @ NUL # js ''+input|a|b'' @ NUL # js ''+msg|a|b|world''))
       = [InputsAdd (Some (js ''a'')) (Some (js ''b'')),
          IoEmit (Some (js ''+input'')) (InputPayload (js ''a|b'') (Some (js ''a'')) (Some (js ''b'')))]"
  using broadcastMessage_segments
    [of joinChannelId "\<lparr>debug = False\<rparr>" initial
       "js '' '' @ NUL # js ''+input|a|b'' @ NUL # js ''+msg|a|b|world''"
       "[js '' '', js ''+input|a|b'']" "js ''+msg|a|b|world''"]
  by (simp add: eval_defs)

section \<open>New messages\<close>

lemma split_msg_fields:
  "BAR \<notin> set tag \<Longrightarrow> BAR \<notin> set strm \<Longrightarrow> BAR \<notin> set src \<Longrightarrow>
     split_js BAR (tag @ BAR # strm @ BAR # src @ BAR # payload) = tag # strm # src # split_js BAR payload"
  by (simp add: split_js_append)

lemma split_three_fields:
  "BAR \<notin> set tag \<Longrightarrow> BAR \<notin> set strm \<Longrightarrow> BAR \<notin> set src \<Longrightarrow>
     split_js BAR (tag @ BAR # strm @ BAR # src) = [tag, strm, src]"
  by (simp add: split_js_append split_js_no_sep)

text \<open>
  C2.  For a message \<^verbatim>\<open>+msg|stream|source|payload\<close>, where stream and source hold no
  \<^verbatim>\<open>'|'\<close> and the payload is any text, with any number of \<^verbatim>\<open>'|'\<close> in it, the
  message event that the router emits to the channel carries exactly that payload: the
  fields after the third, joined again with \<^verbatim>\<open>'|'\<close>.
\<close>

theorem payload_roundtrip:
  "BAR \<notin> set strm \<Longrightarrow> BAR \<notin> set src \<Longrightarrow>
   c = fst (InputRegistry_add derive (inputs st) (Some strm) (Some src)) \<Longrightarrow>
   new_calls st
     (broadcastMessage_each derive config st (js ''+msg'' @ BAR # strm @ BAR # src @ BAR # payload))
   = [InputsAdd (Some strm) (Some src),
      IoToEmit c (Some (js ''+msg'')) (MessagePayload c payload (Some strm) (Some src)),
      IoEmit (Some (js ''+ping'')) (InputPayload c (Some strm) (Some src))]
     @ (if debug config
        then [LoggerDebug (js ''+msg'' @ BAR # strm @ BAR # src @ BAR # payload)] else [])"
proof -
  assume strm: "BAR \<notin> set strm" and src: "BAR \<notin> set src"
    and c: "c = fst (InputRegistry_add derive (inputs st) (Some strm) (Some src))"
  let ?seg = "js ''+msg'' @ BAR # strm @ BAR # src @ BAR # payload"
  have parts: "split_js BAR ?seg = js ''+msg'' # strm # src # split_js BAR payload"
    using strm src by (simp add: split_msg_fields BAR_notin_tags)
  have whole: "join_js BAR (js ''+msg'' # strm # src # split_js BAR payload) = ?seg"
    using join_js_split_js [of BAR ?seg] by (simp add: parts)
  have "broadcastMessage_each derive config st ?seg
      = handleNewMessage derive config st (js ''+msg'' # strm # src # split_js BAR payload)"
    using each_msg [of ?seg derive config st] by (simp add: parts)
  then show ?thesis
    using whole by (simp add: handleNewMessage_eq element_def join_js_split_js c)
qed

theorem payload_roundtrip_witness:
  "BAR \<notin> set (js ''app'') \<and> BAR \<notin> set (js ''host1'') \<and> BAR \<in> set (js ''error: a|b|c'')
   \<and> calls (broadcastMessage_each joinChannelId \<lparr>debug = False\<rparr> initial
        (js ''+msg|app|host1|error: a|b|c''))
     = [InputsAdd (Some (js ''app'')) (Some (js ''host1'')),
        IoToEmit (js ''app|host1'') (Some (js ''+msg''))
          (MessagePayload (js ''app|host1'') (js ''error: a|b|c'')
             (Some (js ''app'')) (Some (js ''host1''))),
        IoEmit (Some (js ''+ping''))
          (InputPayload (js ''app|host1'') (Some (js ''app'')) (Some (js ''host1'')))]"
  using payload_roundtrip
    [of "js ''app''" "js ''host1''" "js ''app|host1''" joinChannelId initial
       "\<lparr>debug = False\<rparr>" "js ''error: a|b|c''"]
  by (simp add: eval_defs)

text \<open>
  C10.  A \<^verbatim>\<open>+msg\<close> message of exactly three fields, \<^verbatim>\<open>+msg|stream|source\<close>, is not
  skipped: \<^verbatim>\<open>handleNewMessage\<close> runs on the three fields, afterwards the registry holds
  the pair, and the message event emitted to the channel carries the empty string as its
  payload.
\<close>

theorem three_fields_empty_payload:
  "BAR \<notin> set strm \<Longrightarrow> BAR \<notin> set src \<Longrightarrow>
   c = fst (InputRegistry_add derive (inputs st) (Some strm) (Some src)) \<Longrightarrow>
   st' = broadcastMessage_each derive config st (js ''+msg'' @ BAR # strm @ BAR # src) \<Longrightarrow>
   split_js BAR (js ''+msg'' @ BAR # strm @ BAR # src) = [js ''+msg'', strm, src]
   \<and> st' = handleNewMessage derive config st [js ''+msg'', strm, src]
   \<and> inputs st' = snd (InputRegistry_add derive (inputs st) (Some strm) (Some src))
   \<and> (\<exists>i\<in>set (InputRegistry_list (inputs st')). samePair (Some strm) (Some src) i)
   \<and> new_calls st st'
     = [InputsAdd (Some strm) (Some src),
        IoToEmit c (Some (js ''+msg'')) (MessagePayload c [] (Some strm) (Some src)),
        IoEmit (Some (js ''+ping'')) (InputPayload c (Some strm) (Some src))]
       @ (if debug config then [LoggerDebug (js ''+msg'' @ BAR # strm @ BAR # src)] else [])"
proof -
  assume strm: "BAR \<notin> set strm" and src: "BAR \<notin> set src"
    and c: "c = fst (InputRegistry_add derive (inputs st) (Some strm) (Some src))"
    and st': "st' = broadcastMessage_each derive config st (js ''+msg'' @ BAR # strm @ BAR # src)"
  let ?seg = "js ''+msg'' @ BAR # strm @ BAR # src"
  have parts: "split_js BAR ?seg = [js ''+msg'', strm, src]"
    using strm src by (simp add: split_three_fields BAR_notin_tags)
  have h: "st' = handleNewMessage derive config st [js ''+msg'', strm, src]"
    using each_msg [of ?seg derive config st] by (simp add: parts st')
  have present: "\<exists>i\<in>set (snd (InputRegistry_add derive (inputs st) (Some strm) (Some src))).
      samePair (Some strm) (Some src) i"
    using find_after_add [of "Some strm" "Some src" derive "inputs st"]
    by (auto simp: find_None_iff)
  show ?thesis
    using parts h present
    by (simp add: handleNewMessage_eq element_def c InputRegistry_list_def)
qed

theorem three_fields_empty_payload_witness:
  "BAR \<notin> set (js ''app'') \<and> BAR \<notin> set (js ''host1'')
   \<and> split_js BAR (js ''+msg|app|host1'') = [js ''+msg'', js ''app'', js ''host1'']
   \<and> broadcastMessage_each joinChannelId \<lparr>debug = False\<rparr> initial (js ''+msg|app|host1'')
     = \<lparr>inputs = [\<lparr>stream = Some (js ''app''), source = Some (js ''host1''),
                    channelId = js ''app|host1''\<rparr>],
        calls = [InputsAdd (Some (js ''app'')) (Some (js ''host1'')),
          IoToEmit (js ''app|host1'') (Some (js ''+msg''))
            (MessagePayload (js ''app|host1'') [] (Some (js ''app'')) (Some (js ''host1''))),
          IoEmit (Some (js ''+ping''))
            (InputPayload (js ''app|host1'') (Some (js ''app'')) (Some (js ''host1'')))]\<rparr>"
  using three_fields_empty_payload
    [of "js ''app''" "js ''host1''" "js ''app|host1''" joinChannelId initial
       "broadcastMessage_each joinChannelId \<lparr>debug = False\<rparr> initial (js ''+msg|app|host1'')"
       "\<lparr>debug = False\<rparr>"]
  by (simp add: eval_defs)

text \<open>
  C6.  For every message whose tag is \<^verbatim>\<open>+msg\<close>, the router leaves the registry as
  \<^verbatim>\<open>add\<close> of the pair leaves it and emits two events: one message event to the room
  of the returned channel id and one \<^verbatim>\<open>+ping\<close> to everybody, carrying channel id,
  stream and source and no payload.  A viewer that has joined the room receives the
  message event once and the ping once; a viewer that has not joined it receives the ping
  only.
\<close>

theorem new_message_fan_out:
  "hd (split_js BAR seg) = js ''+msg'' \<Longrightarrow>
   strm = element (split_js BAR seg) 1 \<Longrightarrow>
   src = element (split_js BAR seg) 2 \<Longrightarrow>
   c = fst (InputRegistry_add derive (inputs st) strm src) \<Longrightarrow>
   st' = broadcastMessage_each derive config st seg \<Longrightarrow>
   inputs st' = snd (InputRegistry_add derive (inputs st) strm src)
   \<and> filter is_emission (new_calls st st')
     = [IoToEmit c (Some (js ''+msg''))
          (MessagePayload c (join_js BAR (drop 3 (split_js BAR seg))) strm src),
        IoEmit (Some (js ''+ping'')) (InputPayload c strm src)]
   \<and> (\<forall>rooms. c \<in> rooms \<longrightarrow>
        received rooms (new_calls st st')
        = [IoToEmit c (Some (js ''+msg''))
             (MessagePayload c (join_js BAR (drop 3 (split_js BAR seg))) strm src),
           IoEmit (Some (js ''+ping'')) (InputPayload c strm src)])
   \<and> (\<forall>rooms. c \<notin> rooms \<longrightarrow>
        received rooms (new_calls st st') = [IoEmit (Some (js ''+ping'')) (InputPayload c strm src)])"
proof -
  assume tag: "hd (split_js BAR seg) = js ''+msg''"
    and strm: "strm = element (split_js BAR seg) 1"
    and src: "src = element (split_js BAR seg) 2"
    and c: "c = fst (InputRegistry_add derive (inputs st) strm src)"
    and st': "st' = broadcastMessage_each derive config st seg"
  have mtype: "element (split_js BAR seg) 0 = Some (js ''+msg'')"
    using tag by (simp add: element_split_js_0)
  have "st' = handleNewMessage derive config st (split_js BAR seg)"
    using tag st' by (simp add: each_msg)
  then show ?thesis
    by (simp add: handleNewMessage_eq mtype strm src c received_def)
qed

theorem new_message_fan_out_witness:
  "hd (split_js BAR (js ''+msg|app|host1|hello'')) = js ''+msg''
   \<and> js ''app|host1'' \<in> {js ''app|host1''} \<and> js ''app|host1'' \<notin> {js ''sys|host2''}
   \<and> received {js ''app|host1''}
        (calls (broadcastMessage_each joinChannelId \<lparr>debug = True\<rparr> initial (js ''+msg|app|host1|hello'')))
     = [IoToEmit (js ''app|host1'') (Some (js ''+msg''))
          (MessagePayload (js ''app|host1'') (js ''hello'') (Some (js ''app'')) (Some (js ''host1''))),
        IoEmit (Some (js ''+ping''))
          (InputPayload (js ''app|host1'') (Some (js ''app'')) (Some (js ''host1'')))]
   \<and> received {js ''sys|host2''}
        (calls (broadcastMessage_each joinChannelId \<lparr>debug = True\<rparr> initial (js ''+msg|app|host1|hello'')))
     = [IoEmit (Some (js ''+ping''))
          (InputPayload (js ''app|host1'') (Some (js ''app'')) (Some (js ''host1'')))]"
  using new_message_fan_out
    [of "js ''+msg|app|host1|hello''" "Some (js ''app'')" "Some (js ''host1'')" "js ''app|host1''"
       joinChannelId initial
       "broadcastMessage_each joinChannelId \<lparr>debug = True\<rparr> initial (js ''+msg|app|host1|hello'')"
       "\<lparr>debug = True\<rparr>"]
  by (simp add: eval_defs)

section \<open>Registration and deregistration\<close>

lemma stored_channelId:
  "\<forall>i\<in>set reg. channelId i = derive (stream i) (source i) \<Longrightarrow>
     \<forall>i\<in>set (foldl (apply_op derive) reg ops). channelId i = derive (stream i) (source i)"
proof (induction ops arbitrary: reg)
  case Nil
  then show ?case by simp
next
  case (Cons op ops)
  have "\<forall>i\<in>set (apply_op derive reg op). channelId i = derive (stream i) (source i)"
    using Cons.prems
    by (cases op) (auto simp: InputRegistry_add_def InputRegistry_remove_def split: option.splits)
  then show ?case using Cons.IH by simp
qed

lemma add_returns_derived:
  "fst (InputRegistry_add derive (run_ops derive ops) s src) = derive s src"
proof (cases "find (samePair s src) (run_ops derive ops)")
  case None
  then show ?thesis by (simp add: InputRegistry_add_def)
next
  case (Some i)
  then have "i \<in> set (run_ops derive ops)" and "samePair s src i"
    by (auto simp: find_Some_iff)
  moreover have "\<forall>i\<in>set (run_ops derive ops). channelId i = derive (stream i) (source i)"
    unfolding run_ops_def by (rule stored_channelId) (simp add: InputRegistry_new_def)
  ultimately show ?thesis using Some by (simp add: InputRegistry_add_def samePair_def)
qed

lemma remove_after_add:
  "InputRegistry_remove derive (snd (InputRegistry_add derive reg s src)) s src
     = (fst (InputRegistry_add derive reg s src),
        filter (\<lambda>j. \<not> samePair s src j) (snd (InputRegistry_add derive reg s src)))"
proof (cases "find (samePair s src) reg")
  case None
  then show ?thesis
    by (simp add: InputRegistry_add_def InputRegistry_remove_def find_append_js samePair_def)
next
  case (Some i)
  then show ?thesis by (simp add: InputRegistry_add_def InputRegistry_remove_def)
qed

lemma msgs_of_input: "msgs_of (js ''+input|app|host1'' @ [NUL]) = [js ''+input|app|host1'']"
  by (simp add: msgs_of_def js_def NUL_def trim_def isWhiteSpace_def)

lemma msgs_of_deinput: "msgs_of (js ''-input|app|host1'' @ [NUL]) = [js ''-input|app|host1'']"
  by (simp add: msgs_of_def js_def NUL_def trim_def isWhiteSpace_def)

lemma split_input: "split_js BAR (js ''+input|app|host1'') = [js ''+input'', js ''app'', js ''host1'']"
  by (simp add: js_def BAR_def)

lemma split_deinput: "split_js BAR (js ''-input|app|host1'') = [js ''-input'', js ''app'', js ''host1'']"
  by (simp add: js_def BAR_def)

text \<open>
  C7.  After the chunk \<^verbatim>\<open>+input|app|host1\0\<close> and then the chunk
  \<^verbatim>\<open>-input|app|host1\0\<close>, from any state, \<^verbatim>\<open>list()\<close> holds no Input for the pair
  (app, host1); the second chunk makes every viewer receive exactly one event, the
  \<^verbatim>\<open>-input\<close> event, and it carries the channel id that the \<^verbatim>\<open>+input\<close> event carried,
  which is the derived one in every state the registry can reach.
\<close>

theorem register_then_deregister:
  "st1 = broadcastMessage derive config st (js ''+input|app|host1'' @ [NUL]) \<Longrightarrow>
   st2 = broadcastMessage derive config st1 (js ''-input|app|host1'' @ [NUL]) \<Longrightarrow>
   c = fst (InputRegistry_add derive (inputs st) (Some (js ''app'')) (Some (js ''host1''))) \<Longrightarrow>
   \<not> (\<exists>i\<in>set (InputRegistry_list (inputs st2)). samePair (Some (js ''app'')) (Some (js ''host1'')) i)
   \<and> new_calls st st1
     = [InputsAdd (Some (js ''app'')) (Some (js ''host1'')),
        IoEmit (Some (js ''+input'')) (InputPayload c (Some (js ''app'')) (Some (js ''host1'')))]
   \<and> new_calls st1 st2
     = [InputsRemove (Some (js ''app'')) (Some (js ''host1'')),
        IoEmit (Some (js ''-input'')) (InputPayload c (Some (js ''app'')) (Some (js ''host1'')))]
   \<and> (\<forall>rooms. received rooms (new_calls st1 st2)
        = [IoEmit (Some (js ''-input'')) (InputPayload c (Some (js ''app'')) (Some (js ''host1'')))])
   \<and> (inputs st = run_ops derive ops \<longrightarrow> c = derive (Some (js ''app'')) (Some (js ''host1'')))"
proof -
  assume st1: "st1 = broadcastMessage derive config st (js ''+input|app|host1'' @ [NUL])"
    and st2: "st2 = broadcastMessage derive config st1 (js ''-input|app|host1'' @ [NUL])"
    and c: "c = fst (InputRegistry_add derive (inputs st) (Some (js ''app'')) (Some (js ''host1'')))"
  have h1: "st1 = handleRegisterInput derive config st [js ''+input'', js ''app'', js ''host1'']"
    using each_input [of "js ''+input|app|host1''" derive config st]
    by (simp add: st1 broadcastMessage_def msgs_of_input split_input)
  have h2: "st2 = handleDeregisterInput derive config st1 [js ''-input'', js ''app'', js ''host1'']"
    using each_deinput [of "js ''-input|app|host1''" derive config st1]
    by (simp add: st2 broadcastMessage_def msgs_of_deinput split_deinput)
  have i1: "inputs st1 = snd (InputRegistry_add derive (inputs st) (Some (js ''app'')) (Some (js ''host1'')))"
    and n1: "new_calls st st1
     = [InputsAdd (Some (js ''app'')) (Some (js ''host1'')),
        IoEmit (Some (js ''+input'')) (InputPayload c (Some (js ''app'')) (Some (js ''host1'')))]"
    by (simp_all add: h1 handleRegisterInput_eq element_def c)
  have i2: "inputs st2 =
      filter (\<lambda>j. \<not> samePair (Some (js ''app'')) (Some (js ''host1'')) j) (inputs st1)"
    and n2: "new_calls st1 st2
     = [InputsRemove (Some (js ''app'')) (Some (js ''host1'')),
        IoEmit (Some (js ''-input'')) (InputPayload c (Some (js ''app'')) (Some (js ''host1'')))]"
    by (simp_all add: h2 handleDeregisterInput_eq element_def i1 remove_after_add c)
  have gone: "\<not> (\<exists>i\<in>set (InputRegistry_list (inputs st2)).
      samePair (Some (js ''app'')) (Some (js ''host1'')) i)"
    by (simp add: i2 InputRegistry_list_def)
  have derived: "inputs st = run_ops derive ops \<longrightarrow> c = derive (Some (js ''app'')) (Some (js ''host1''))"
    by (simp add: c add_returns_derived)
  show ?thesis
    using gone n1 n2 derived by (simp add: received_def)
qed

theorem register_then_deregister_witness:
  "inputs initial = run_ops joinChannelId []
   \<and> broadcastMessage joinChannelId \<lparr>debug = False\<rparr>
       (broadcastMessage joinChannelId \<lparr>debug = False\<rparr> initial (js ''+input|app|host1'' @ [NUL]))
       (js ''-input|app|host1'' @ [NUL])
     = \<lparr>inputs = [],
        calls = [InputsAdd (Some (js ''app'')) (Some (js ''host1'')),
          IoEmit (Some (js ''+input''))
            (InputPayload (js ''app|host1'') (Some (js ''app'')) (Some (js ''host1''))),
          InputsRemove (Some (js ''app'')) (Some (js ''host1'')),
          IoEmit (Some (js ''-input''))
            (InputPayload (js ''app|host1'') (Some (js ''app'')) (Some (js ''host1'')))]\<rparr>"
  using register_then_deregister
    [of "broadcastMessage joinChannelId \<lparr>debug = False\<rparr> initial (js ''+input|app|host1'' @ [NUL])"
       joinChannelId "\<lparr>debug = False\<rparr>" initial
       "broadcastMessage joinChannelId \<lparr>debug = False\<rparr>
          (broadcastMessage joinChannelId \<lparr>debug = False\<rparr> initial (js ''+input|app|host1'' @ [NUL]))
          (js ''-input|app|host1'' @ [NUL])"
       "js ''app|host1''" "[]"]
  by (simp add: eval_defs run_ops_def)

section \<open>Unknown tags and short frames\<close>

lemma msgs_of_Cons:
  "NUL \<notin> set seg \<Longrightarrow>
     msgs_of (seg @ NUL # rest) = (if trim seg \<noteq> [] then [seg] else []) @ msgs_of rest"
  by (simp add: msgs_of_def split_js_append butlast.simps(2) split_js_not_Nil)

lemma broadcastMessage_Cons:
  "NUL \<notin> set seg \<Longrightarrow> trim seg \<noteq> [] \<Longrightarrow>
     broadcastMessage derive config st (seg @ NUL # rest)
       = broadcastMessage derive config (broadcastMessage_each derive config st seg) rest"
  by (simp add: broadcastMessage_def msgs_of_Cons)

lemma messageHandlers_None:
  "tag \<noteq> js ''+msg'' \<Longrightarrow> tag \<noteq> js ''+input'' \<Longrightarrow> tag \<noteq> js ''-input'' \<Longrightarrow>
     tag \<notin> set objectPrototypeKeys \<Longrightarrow> messageHandlers tag = None"
  by (simp add: messageHandlers_def)

text \<open>
  C3 as amended.  A segment whose tag is none of \<^verbatim>\<open>+msg\<close>, \<^verbatim>\<open>+input\<close>, \<^verbatim>\<open>-input\<close>
  and no property name of \<^verbatim>\<open>Object.prototype\<close> is skipped, whatever the number of its
  fields: the registry stays as it is and the only call is one \<^verbatim>\<open>logger.error\<close> naming
  the tag.  A segment with one of the three tags is handed to the handler of the tag,
  also when it has fewer than three fields (the fields that are missing are
  \<^verbatim>\<open>undefined\<close>): the handler calls the registry and emits.  In both cases the
  segments that follow in the chunk are processed from the state this one leaves.
\<close>

theorem unknown_tag_skipped:
  "tag = hd (split_js BAR seg) \<Longrightarrow>
   st' = broadcastMessage_each derive config st seg \<Longrightarrow>
   (tag \<notin> {js ''+msg'', js ''+input'', js ''-input''} \<union> set objectPrototypeKeys \<longrightarrow>
      inputs st' = inputs st
      \<and> new_calls st st' = [LoggerError (js ''Unknown message type: '' @ tag)])
   \<and> (tag = js ''+msg'' \<longrightarrow> st' = handleNewMessage derive config st (split_js BAR seg))
   \<and> (tag = js ''+input'' \<longrightarrow> st' = handleRegisterInput derive config st (split_js BAR seg))
   \<and> (tag = js ''-input'' \<longrightarrow> st' = handleDeregisterInput derive config st (split_js BAR seg))
   \<and> (tag \<in> {js ''+msg'', js ''+input'', js ''-input''} \<longrightarrow>
        is_mutation (hd (new_calls st st')) \<and> filter is_emission (new_calls st st') \<noteq> [])
   \<and> (NUL \<notin> set seg \<longrightarrow> trim seg \<noteq> [] \<longrightarrow>
        broadcastMessage derive config st (seg @ NUL # rest) = broadcastMessage derive config st' rest)"
proof -
  assume tag: "tag = hd (split_js BAR seg)"
    and st': "st' = broadcastMessage_each derive config st seg"
  have unknown: "tag \<notin> {js ''+msg'', js ''+input'', js ''-input''} \<union> set objectPrototypeKeys \<longrightarrow>
      inputs st' = inputs st
      \<and> new_calls st st' = [LoggerError (js ''Unknown message type: '' @ tag)]"
  proof
    assume "tag \<notin> {js ''+msg'', js ''+input'', js ''-input''} \<union> set objectPrototypeKeys"
    then have "messageHandlers (hd (split_js BAR seg)) = None"
      using tag by (simp add: messageHandlers_None)
    then show "inputs st' = inputs st
      \<and> new_calls st st' = [LoggerError (js ''Unknown message type: '' @ tag)]"
      by (simp add: st' each_unknown tag)
  qed
  have msg: "tag = js ''+msg'' \<longrightarrow> st' = handleNewMessage derive config st (split_js BAR seg)"
    using tag st' by (simp add: each_msg)
  have inp: "tag = js ''+input'' \<longrightarrow> st' = handleRegisterInput derive config st (split_js BAR seg)"
    using tag st' by (simp add: each_input)
  have dei: "tag = js ''-input'' \<longrightarrow> st' = handleDeregisterInput derive config st (split_js BAR seg)"
    using tag st' by (simp add: each_deinput)
  have known: "tag \<in> {js ''+msg'', js ''+input'', js ''-input''} \<longrightarrow>
        is_mutation (hd (new_calls st st')) \<and> filter is_emission (new_calls st st') \<noteq> []"
    using msg inp dei
    by (auto simp: handleNewMessage_eq handleRegisterInput_eq handleDeregisterInput_eq)
  have rest: "NUL \<notin> set seg \<longrightarrow> trim seg \<noteq> [] \<longrightarrow>
        broadcastMessage derive config st (seg @ NUL # rest) = broadcastMessage derive config st' rest"
    by (simp add: st' broadcastMessage_Cons)
  from unknown msg inp dei known rest show ?thesis by blast
qed

theorem unknown_tag_skipped_witness:
  "js ''bogus'' = hd (split_js BAR (js ''bogus|a''))
   \<and> js ''bogus'' \<notin> {js ''+msg'', js ''+input'', js ''-input''} \<union> set objectPrototypeKeys
   \<and> NUL \<notin> set (js ''bogus|a'') \<and> trim (js ''bogus|a'') \<noteq> []
   \<and> broadcastMessage joinChannelId \<lparr>debug = False\<rparr> initial
        (js ''bogus|a'' @ NUL # js ''+input|app|host1'' @ [NUL])
     = \<lparr>inputs = [\<lparr>stream = Some (js ''app''), source = Some (js ''host1''),
                    channelId = js ''app|host1''\<rparr>],
        calls = [LoggerError (js ''Unknown message type: bogus''),
          InputsAdd (Some (js ''app'')) (Some (js ''host1'')),
          IoEmit (Some (js ''+input''))
            (InputPayload (js ''app|host1'') (Some (js ''app'')) (Some (js ''host1'')))]\<rparr>"
  using unknown_tag_skipped
    [of "js ''bogus''" "js ''bogus|a''"
       "broadcastMessage_each joinChannelId \<lparr>debug = False\<rparr> initial (js ''bogus|a'')"
       joinChannelId "\<lparr>debug = False\<rparr>" initial "js ''+input|app|host1'' @ [NUL]"]
  by (simp add: eval_defs)

text \<open>
  C3 as stated fails.  The segment \<^verbatim>\<open>+input|app\<close> has two fields and is not skipped: \<^verbatim>\<open>handleRegisterInput\<close>
  runs, registers the pair (app, \<^verbatim>\<open>undefined\<close>) and emits a \<^verbatim>\<open>+input\<close> event.
\<close>

theorem short_frame_dispatched:
  "length (split_js BAR (js ''+input|app'')) = 2
   \<and> broadcastMessage joinChannelId \<lparr>debug = False\<rparr> initial (js ''+input|app'' @ [NUL])
     = \<lparr>inputs = [\<lparr>stream = Some (js ''app''), source = None, channelId = js ''app|undefined''\<rparr>],
        calls = [InputsAdd (Some (js ''app'')) None,
          IoEmit (Some (js ''+input'')) (InputPayload (js ''app|undefined'') (Some (js ''app'')) None)]\<rparr>"
  by (simp add: eval_defs)

text \<open>
  C8 fails on the code.  The tag \<^verbatim>\<open>toString\<close> is none of the three message types, but
  \<^verbatim>\<open>messageHandlers['toString']\<close> is the function inherited from \<^verbatim>\<open>Object.prototype\<close>,
  which is truthy: the branch that logs is not taken, and the chunk \<^verbatim>\<open>toString|a|b\0\<close>
  leaves the state as it was, with no diagnostic.  The chunk \<^verbatim>\<open>bogus|a|b|c\0\<close> is logged
  once.
\<close>

theorem inherited_property_tag_not_logged:
  "js ''toString'' \<notin> {js ''+msg'', js ''+input'', js ''-input''}
   \<and> messageHandlers (js ''toString'') = Some ObjectPrototypeProperty
   \<and> broadcastMessage derive config st (js ''toString|a|b'' @ [NUL]) = st
   \<and> new_calls st (broadcastMessage derive config st (js ''bogus|a|b|c'' @ [NUL]))
     = [LoggerError (js ''Unknown message type: bogus'')]"
proof -
  have a: "msgs_of (js ''toString|a|b'' @ [NUL]) = [js ''toString|a|b'']"
    and b: "msgs_of (js ''bogus|a|b|c'' @ [NUL]) = [js ''bogus|a|b|c'']"
    by (simp_all add: msgs_of_def js_def NUL_def trim_def isWhiteSpace_def)
  have c: "hd (split_js BAR (js ''toString|a|b'')) = js ''toString''"
    and d: "hd (split_js BAR (js ''bogus|a|b|c'')) = js ''bogus''"
    by (simp_all add: js_def BAR_def)
  have e: "messageHandlers (js ''toString'') = Some ObjectPrototypeProperty"
    and f: "messageHandlers (js ''bogus'') = None"
    by (simp_all add: messageHandlers_def objectPrototypeKeys_def js_def)
  have g: "js ''Unknown message type: '' @ js ''bogus'' = js ''Unknown message type: bogus''"
    by (simp add: js_def)
  have "js ''toString'' \<notin> {js ''+msg'', js ''+input'', js ''-input''}"
    by (simp add: js_def)
  then show ?thesis
    using e g by (simp add: broadcastMessage_def a b each_inherited each_unknown c d f)
qed

section \<open>The registry call precedes the broadcast\<close>

text \<open>
  C9.  In the calls that the processing of one \<^verbatim>\<open>+msg\<close>, \<^verbatim>\<open>+input\<close> or \<^verbatim>\<open>-input\<close>
  message makes, the first is the registry call (\<^verbatim>\<open>remove\<close> for \<^verbatim>\<open>-input\<close>, \<^verbatim>\<open>add\<close>
  for the other two), and it alone brings the registry to its state after the message.
  Every emission comes later in the trace, and at each emission the registry calls made
  so far have already produced that final registry.
\<close>

theorem mutation_before_broadcast:
  "tag = hd (split_js BAR seg) \<Longrightarrow>
   tag \<in> {js ''+msg'', js ''+input'', js ''-input''} \<Longrightarrow>
   strm = element (split_js BAR seg) 1 \<Longrightarrow>
   src = element (split_js BAR seg) 2 \<Longrightarrow>
   st' = broadcastMessage_each derive config st seg \<Longrightarrow>
   new = new_calls st st' \<Longrightarrow>
   new ! 0 = (if tag = js ''-input'' then InputsRemove strm src else InputsAdd strm src)
   \<and> replay derive (inputs st) [new ! 0] = inputs st'
   \<and> (\<exists>i<length new. is_emission (new ! i))
   \<and> (\<forall>i<length new. is_emission (new ! i) \<longrightarrow>
         0 < i \<and> replay derive (inputs st) (take i new) = inputs st')"
proof -
  assume tag: "tag = hd (split_js BAR seg)"
    and known: "tag \<in> {js ''+msg'', js ''+input'', js ''-input''}"
    and strm: "strm = element (split_js BAR seg) 1"
    and src: "src = element (split_js BAR seg) 2"
    and st': "st' = broadcastMessage_each derive config st seg"
    and new: "new = new_calls st st'"
  from known consider
    (msg) "tag = js ''+msg''" | (inp) "tag = js ''+input''" | (dei) "tag = js ''-input''"
    by auto
  then show ?thesis
  proof cases
    case msg
    then have "st' = handleNewMessage derive config st (split_js BAR seg)"
      using tag st' by (simp add: each_msg)
    then show ?thesis
      using msg by (auto simp: new handleNewMessage_eq strm src js_tags less_Suc_eq nth_Cons')
  next
    case inp
    then have "st' = handleRegisterInput derive config st (split_js BAR seg)"
      using tag st' by (simp add: each_input)
    then show ?thesis
      using inp by (auto simp: new handleRegisterInput_eq strm src js_tags less_Suc_eq nth_Cons')
  next
    case dei
    then have "st' = handleDeregisterInput derive config st (split_js BAR seg)"
      using tag st' by (simp add: each_deinput)
    then show ?thesis
      using dei by (auto simp: new handleDeregisterInput_eq strm src less_Suc_eq nth_Cons')
  qed
qed

theorem mutation_before_broadcast_witness:
  "js ''-input'' = hd (split_js BAR (js ''-input|app|host1''))
   \<and> js ''-input'' \<in> {js ''+msg'', js ''+input'', js ''-input''}
   \<and> new_calls
        \<lparr>inputs = [\<lparr>stream = Some (js ''app''), source = Some (js ''host1''),
                     channelId = js ''app|host1''\<rparr>], calls = []\<rparr>
        (broadcastMessage_each joinChannelId \<lparr>debug = False\<rparr>
           \<lparr>inputs = [\<lparr>stream = Some (js ''app''), source = Some (js ''host1''),
                        channelId = js ''app|host1''\<rparr>], calls = []\<rparr>
           (js ''-input|app|host1''))
     = [InputsRemove (Some (js ''app'')) (Some (js ''host1'')),
        IoEmit (Some (js ''-input''))
          (InputPayload (js ''app|host1'') (Some (js ''app'')) (Some (js ''host1'')))]
   \<and> replay joinChannelId
        [\<lparr>stream = Some (js ''app''), source = Some (js ''host1''), channelId = js ''app|host1''\<rparr>]
        [InputsRemove (Some (js ''app'')) (Some (js ''host1''))]
     = []"
  using mutation_before_broadcast
    [of "js ''-input''" "js ''-input|app|host1''" "Some (js ''app'')" "Some (js ''host1'')"
       "broadcastMessage_each joinChannelId \<lparr>debug = False\<rparr>
           \<lparr>inputs = [\<lparr>stream = Some (js ''app''), source = Some (js ''host1''),
                        channelId = js ''app|host1''\<rparr>], calls = []\<rparr>
           (js ''-input|app|host1'')"
       joinChannelId "\<lparr>debug = False\<rparr>"
       "\<lparr>inputs = [\<lparr>stream = Some (js ''app''), source = Some (js ''host1''),
                        channelId = js ''app|host1''\<rparr>], calls = []\<rparr>"
       "[InputsRemove (Some (js ''app'')) (Some (js ''host1'')),
        IoEmit (Some (js ''-input''))
          (InputPayload (js ''app|host1'') (Some (js ''app'')) (Some (js ''host1'')))]"]
  by (simp add: eval_defs)

end
